theory Spec2Isabelle
  imports Complex_Main "HOL-Library.Sublist"
begin

section \<open>Python values\<close>

text \<open>
  The values a YAML descriptor holds and the program passes around: null, booleans,
  integers, strings, sequences and mappings. A mapping is an association list in
  insertion order, as a Python \<open>dict\<close> keeps it. Floats, dates and tagged values are
  outside the model. Strings are ASCII text.
\<close>

datatype pyval =
    VNone
  | VBool bool
  | VInt int
  | VStr string
  | VList "pyval list"
  | VDict "(pyval \<times> pyval) list"

type_synonym pydict = "(pyval \<times> pyval) list"

text \<open>The exceptions that can occur, by class.\<close>

datatype py_exn =
    KeyError string
  | IndexError
  | ValueError
  | TypeError
  | AttributeError
  | FileNotFoundError
  | FileExistsError
  | NotADirectoryError
  | IsADirectoryError
  | CalledProcessError "string list" int
  | OtherException string

text \<open>
  What a function of the program gives back: \<open>Ok v\<close> is the pair \<open>(v, None)\<close>,
  \<open>Error msg\<close> is the pair \<open>(None, msg)\<close>, and \<open>Raised e\<close> is an exception that
  leaves the function uncaught.
\<close>

datatype 'a outcome = Ok 'a | Error string | Raised py_exn

fun truthy :: "pyval \<Rightarrow> bool" where
  "truthy VNone = False"
| "truthy (VBool b) = b"
| "truthy (VInt i) = (i \<noteq> 0)"
| "truthy (VStr s) = (s \<noteq> [])"
| "truthy (VList xs) = (xs \<noteq> [])"
| "truthy (VDict kvs) = (kvs \<noteq> [])"

text \<open>Keys compare as Python compares them: \<open>True == 1\<close> and \<open>False == 0\<close>.\<close>

fun key_norm :: "pyval \<Rightarrow> pyval" where
  "key_norm (VBool b) = VInt (if b then 1 else 0)"
| "key_norm v = v"

definition key_eq :: "pyval \<Rightarrow> pyval \<Rightarrow> bool" where
  "key_eq a b = (key_norm a = key_norm b)"

fun hashable :: "pyval \<Rightarrow> bool" where
  "hashable (VList xs) = False"
| "hashable (VDict kvs) = False"
| "hashable v = True"

fun dict_get :: "pydict \<Rightarrow> pyval \<Rightarrow> pyval option" where
  "dict_get [] k = None"
| "dict_get ((k', v) # kvs) k = (if key_eq k' k then Some v else dict_get kvs k)"

text \<open>\<open>d[k] = v\<close>: an existing key keeps its place, a new key goes to the end.\<close>

fun dict_set :: "pydict \<Rightarrow> pyval \<Rightarrow> pyval \<Rightarrow> pydict" where
  "dict_set [] k v = [(k, v)]"
| "dict_set ((k', v') # kvs) k v =
     (if key_eq k' k then (k', v) # kvs else (k', v') # dict_set kvs k v)"

section \<open>Strings and paths\<close>

definition startswith :: "string \<Rightarrow> string \<Rightarrow> bool" where
  "startswith s p = (take (length p) s = p)"

definition endswith :: "string \<Rightarrow> string \<Rightarrow> bool" where
  "endswith s p = (length p \<le> length s \<and> drop (length s - length p) s = p)"

fun str_contains :: "string \<Rightarrow> string \<Rightarrow> bool" where
  "str_contains [] sub = (sub = [])"
| "str_contains (c # cs) sub = (startswith (c # cs) sub \<or> str_contains cs sub)"

text \<open>The ASCII characters \<open>str.split()\<close> treats as white space.\<close>

definition is_space :: "char \<Rightarrow> bool" where
  "is_space c = (of_char c \<in> {9, 10, 11, 12, 13, 28, 29, 30, 31, 32 :: nat})"

fun split_ws :: "string \<Rightarrow> string \<Rightarrow> string list" where
  "split_ws cur [] = (if cur = [] then [] else [cur])"
| "split_ws cur (c # cs) =
     (if is_space c then (if cur = [] then split_ws [] cs else cur # split_ws [] cs)
      else split_ws (cur @ [c]) cs)"

definition str_split :: "string \<Rightarrow> string list" where
  "str_split s = split_ws [] s"

fun str_join :: "string \<Rightarrow> string list \<Rightarrow> string" where
  "str_join sep [] = []"
| "str_join sep [x] = x"
| "str_join sep (x # y # ys) = x @ sep @ str_join sep (y # ys)"

fun str_nat :: "nat \<Rightarrow> string" where
  "str_nat n =
     (if n < 10 then [''0123456789'' ! n]
      else str_nat (n div 10) @ [''0123456789'' ! (n mod 10)])"

declare str_nat.simps [simp del]

definition str_int :: "int \<Rightarrow> string" where
  "str_int i = (if i < 0 then CHR ''-'' # str_nat (nat (- i)) else str_nat (nat i))"

text \<open>\<open>os.path.join\<close> and \<open>os.path.dirname\<close> of \<open>posixpath\<close>.\<close>

fun os_path_join :: "string \<Rightarrow> string list \<Rightarrow> string" where
  "os_path_join path [] = path"
| "os_path_join path (b # bs) =
     os_path_join
       (if startswith b ''/'' then b
        else if path = [] \<or> endswith path ''/'' then path @ b
        else path @ ''/'' @ b) bs"

definition os_path_dirname :: "string \<Rightarrow> string" where
  "os_path_dirname p =
     (let head = rev (dropWhile (\<lambda>c. c \<noteq> CHR ''/'') (rev p))
      in if head \<noteq> [] \<and> \<not> list_all (\<lambda>c. c = CHR ''/'') head
         then rev (dropWhile (\<lambda>c. c = CHR ''/'') (rev head))
         else head)"

section \<open>The host: interpreter, file tree, processes\<close>

text \<open>
  The file tree: a node is a regular file or a directory with named entries (the
  first entry of a name counts). A location is the list of names from the root down.
  Symbolic links and permissions are outside the model.
\<close>

datatype node = File | Dir "(string \<times> node) list"

type_synonym location = "string list"

fun node_at :: "node \<Rightarrow> location \<Rightarrow> node option" where
  "node_at n [] = Some n"
| "node_at File (c # cs) = None"
| "node_at (Dir es) (c # cs) = (case map_of es c of None \<Rightarrow> None | Some m \<Rightarrow> node_at m cs)"

definition set_entry :: "string \<Rightarrow> node option \<Rightarrow> (string \<times> node) list \<Rightarrow> (string \<times> node) list" where
  "set_entry c v es =
     (case v of
        None \<Rightarrow> filter (\<lambda>e. fst e \<noteq> c) es
      | Some m \<Rightarrow> (c, m) # filter (\<lambda>e. fst e \<noteq> c) es)"

text \<open>
  Put a node at a location, or take away what is there (\<open>None\<close>). Nothing happens
  where the way to the location does not lead through directories; the root stays.
\<close>

fun set_node :: "location \<Rightarrow> node option \<Rightarrow> node \<Rightarrow> node" where
  "set_node [] v n = (case v of None \<Rightarrow> n | Some m \<Rightarrow> m)"
| "set_node (c # cs) v File = File"
| "set_node (c # cs) v (Dir es) =
     (if cs = [] then Dir (set_entry c v es)
      else (case map_of es c of
              None \<Rightarrow> Dir es
            | Some m \<Rightarrow> Dir (set_entry c (Some (set_node cs v m)) es)))"

text \<open>
  Path resolution as the operating system does it. The path is cut at every slash;
  before each component is taken, the place reached so far must be a directory; an
  empty component and \<open>.\<close> stay, \<open>..\<close> goes one up (the root is its own parent), a name
  goes one down. What the last component reaches need not exist. A path that starts
  with a slash is resolved from the root, any other from the working directory; the
  empty path names nothing.
\<close>

fun split_slash :: "string \<Rightarrow> string list" where
  "split_slash [] = [[]]"
| "split_slash (c # cs) =
     (if c = CHR ''/'' then [] # split_slash cs
      else (case split_slash cs of
              [] \<Rightarrow> [[c]]
            | w # ws \<Rightarrow> (c # w) # ws))"

fun walk :: "node \<Rightarrow> location \<Rightarrow> string list \<Rightarrow> py_exn + location" where
  "walk t cur [] = Inr cur"
| "walk t cur (c # cs) =
     (case node_at t cur of
        None \<Rightarrow> Inl FileNotFoundError
      | Some File \<Rightarrow> Inl NotADirectoryError
      | Some (Dir es) \<Rightarrow>
          if c = [] \<or> c = ''.'' then walk t cur cs
          else if c = ''..'' then walk t (butlast cur) cs
          else walk t (cur @ [c]) cs)"

definition resolve :: "node \<Rightarrow> location \<Rightarrow> string \<Rightarrow> py_exn + location" where
  "resolve t cwd p =
     (if p = [] then Inl FileNotFoundError
      else walk t (if hd p = CHR ''/'' then [] else cwd) (split_slash p))"

definition os_stat :: "node \<Rightarrow> location \<Rightarrow> string \<Rightarrow> py_exn + node" where
  "os_stat t cwd p =
     (case resolve t cwd p of
        Inl e \<Rightarrow> Inl e
      | Inr loc \<Rightarrow> (case node_at t loc of None \<Rightarrow> Inl FileNotFoundError | Some n \<Rightarrow> Inr n))"

definition path_exists :: "node \<Rightarrow> location \<Rightarrow> string \<Rightarrow> bool" where
  "path_exists t cwd p = (case os_stat t cwd p of Inl e \<Rightarrow> False | Inr n \<Rightarrow> True)"

definition strip_slashes :: "string \<Rightarrow> string" where
  "strip_slashes p = rev (dropWhile (\<lambda>c. c = CHR ''/'') (rev p))"




text \<open>
  \<open>os.mkdir\<close>: trailing slashes do not count; what the path names must not exist,
  and its parent must be a directory. The new directory is empty. The result is the
  exception raised, if any, and the tree.
\<close>

definition os_mkdir :: "location \<Rightarrow> string \<Rightarrow> node \<Rightarrow> py_exn option \<times> node" where
  "os_mkdir cwd p t =
     (case resolve t cwd (if strip_slashes p = [] then p else strip_slashes p) of
        Inl e \<Rightarrow> (Some e, t)
      | Inr loc \<Rightarrow>
          if node_at t loc \<noteq> None then (Some FileExistsError, t)
          else (None, set_node loc (Some (Dir [])) t))"

text \<open>
  \<open>os.rmdir\<close> with its error ignored: the directory goes when the path (trailing
  slashes apart) ends in a name, not in \<open>.\<close> or \<open>..\<close>, and resolves to an empty
  directory; otherwise the tree stays as it is.
\<close>

definition rmdir_quiet :: "location \<Rightarrow> string \<Rightarrow> node \<Rightarrow> node" where
  "rmdir_quiet cwd p t =
     (let q = strip_slashes p in
      if q = [] \<or> last (split_slash q) = ''.'' \<or> last (split_slash q) = ''..'' then t
      else (case resolve t cwd q of
              Inl e \<Rightarrow> t
            | Inr loc \<Rightarrow> if node_at t loc = Some (Dir []) then set_node loc None t else t))"

text \<open>\<open>os.path.split\<close> of \<open>posixpath\<close>, and the head and tail \<open>os.makedirs\<close> works with.\<close>

definition os_path_split :: "string \<Rightarrow> string \<times> string" where
  "os_path_split p =
     (let head = rev (dropWhile (\<lambda>c. c \<noteq> CHR ''/'') (rev p));
          tail = rev (takeWhile (\<lambda>c. c \<noteq> CHR ''/'') (rev p))
      in (if head \<noteq> [] \<and> \<not> list_all (\<lambda>c. c = CHR ''/'') head then strip_slashes head else head,
          tail))"

definition makedirs_split :: "string \<Rightarrow> string \<times> string" where
  "makedirs_split name =
     (if snd (os_path_split name) = [] then os_path_split (fst (os_path_split name))
      else os_path_split name)"

text \<open>
  \<open>os.makedirs(name)\<close> as the library defines it: when the head does not exist it is
  made first, a \<open>FileExistsError\<close> from that being passed over; then, unless the tail
  is \<open>.\<close> after such a step, the leaf is made with \<open>os.mkdir\<close>.
\<close>

function makedirs :: "location \<Rightarrow> string \<Rightarrow> node \<Rightarrow> py_exn option \<times> node" where
  "makedirs cwd name t =
     (if fst (makedirs_split name) \<noteq> [] \<and> snd (makedirs_split name) \<noteq> []
         \<and> \<not> path_exists t cwd (fst (makedirs_split name))
      then (case makedirs cwd (fst (makedirs_split name)) t of
              (Some e, t1) \<Rightarrow>
                if e \<noteq> FileExistsError then (Some e, t1)
                else if snd (makedirs_split name) = ''.'' then (None, t1)
                else os_mkdir cwd name t1
            | (None, t1) \<Rightarrow>
                if snd (makedirs_split name) = ''.'' then (None, t1)
                else os_mkdir cwd name t1)
      else os_mkdir cwd name t)"
  by pat_completeness auto
termination
proof (relation "measure (\<lambda>(cwd, name, t). length name)")
  show "wf (measure (\<lambda>(cwd, name, t). length name))"
    by simp
next
  fix cwd :: location and name :: string and t :: node
  have split_le: "length (fst (os_path_split p)) + length (snd (os_path_split p)) \<le> length p"
    for p :: string
  proof -
    have "length (dropWhile P xs) + length (takeWhile P xs) = length xs"
      for P :: "char \<Rightarrow> bool" and xs
      by (induction xs) auto
    from this [of "\<lambda>c. c \<noteq> CHR ''/''" "rev p"]
    have a: "length (dropWhile (\<lambda>c. c \<noteq> CHR ''/'') (rev p))
        + length (takeWhile (\<lambda>c. c \<noteq> CHR ''/'') (rev p)) = length p"
      by simp
    have b: "length (strip_slashes q) \<le> length q" for q :: string
      using length_dropWhile_le [of "\<lambda>c. c = CHR ''/''" "rev q"]
      by (simp add: strip_slashes_def)
    show ?thesis
      using a b [of "rev (dropWhile (\<lambda>c. c \<noteq> CHR ''/'') (rev p))"]
      by (auto simp: os_path_split_def Let_def)
  qed
  assume "fst (makedirs_split name) \<noteq> [] \<and> snd (makedirs_split name) \<noteq> []
         \<and> \<not> path_exists t cwd (fst (makedirs_split name))"
  then have tail: "snd (makedirs_split name) \<noteq> []" by simp
  have "length (fst (makedirs_split name)) < length name"
  proof (cases "snd (os_path_split name) = []")
    case True
    with tail have "snd (os_path_split (fst (os_path_split name))) \<noteq> []"
      by (simp add: makedirs_split_def)
    then have "0 < length (snd (os_path_split (fst (os_path_split name))))"
      by simp
    then have "length (fst (os_path_split (fst (os_path_split name))))
        < length (fst (os_path_split name))"
      using split_le [of "fst (os_path_split name)"] by linarith
    moreover have "length (fst (os_path_split name)) \<le> length name"
      using split_le [of name] by simp
    ultimately show ?thesis using True by (simp add: makedirs_split_def)
  next
    case False
    then have "0 < length (snd (os_path_split name))"
      by simp
    then have "length (fst (os_path_split name)) < length name"
      using split_le [of name] by linarith
    then show ?thesis
      using False by (simp add: makedirs_split_def)
  qed
  then show "((cwd, fst (makedirs_split name), t), (cwd, name, t))
      \<in> measure (\<lambda>(cwd, name, t). length name)"
    by simp
qed

declare makedirs.simps [simp del]

datatype proc_result = Exited int | SpawnError py_exn

datatype stream = Stdout | Stderr

text \<open>What the program does to the outside, in the order it does it.\<close>

datatype event =
    Spawn "string list" "pydict option" proc_result
  | Sleep real
  | Exists string bool
  | Remove string
  | Rmtree string
  | Makedirs string
  | Print stream "pyval list"

text \<open>
  The host is everything the program reads from its surroundings and cannot compute:
  the directory of the script (\<open>HERE\<close>), \<open>sys.executable\<close>, \<open>os.environ\<close>, the working
  directory, the YAML loader applied to a path (\<open>io.open\<close> followed by
  \<open>YAML().load\<close>), \<open>os.path.abspath\<close>, the text \<open>str(e)\<close> of an exception, the text
  \<open>str(v)\<close> of a list or a mapping, the rendering of a replacement field that uses
  attribute or index access, a conversion or a format spec, and the run of a child
  process: from the argument vector, the environment passed (if any), the file tree and
  the state \<open>'x\<close> of everything else outside (the supervisor's registry, running
  processes) to the result, the new file tree and the new outside state.
\<close>

record 'x host =
  here :: string
  executable :: string
  environ :: "(string \<times> string) list"
  cwd :: location
  load_yaml :: "string \<Rightarrow> py_exn + pyval"
  abspath :: "string \<Rightarrow> string"
  exn_str :: "py_exn \<Rightarrow> string"
  container_str :: "pyval \<Rightarrow> string"
  format_field :: "string \<Rightarrow> string \<Rightarrow> char option \<Rightarrow> string \<Rightarrow> py_exn + string"
  spawn :: "string list \<Rightarrow> pydict option \<Rightarrow> node \<times> 'x \<Rightarrow> proc_result \<times> node \<times> 'x"

record 'x state =
  files :: node
  outside :: 'x
  trace :: "event list"

definition emit :: "event \<Rightarrow> 'x state \<Rightarrow> 'x state" where
  "emit e s = s\<lparr>trace := trace s @ [e]\<rparr>"

definition py_str :: "'x host \<Rightarrow> pyval \<Rightarrow> string" where
  "py_str h v =
     (case v of
        VStr s \<Rightarrow> s
      | VNone \<Rightarrow> ''None''
      | VBool b \<Rightarrow> (if b then ''True'' else ''False'')
      | VInt i \<Rightarrow> str_int i
      | _ \<Rightarrow> container_str h v)"

definition print_out :: "pyval list \<Rightarrow> 'x state \<Rightarrow> 'x state" where
  "print_out args s = emit (Print Stdout args) s"

definition print_error :: "pyval list \<Rightarrow> 'x state \<Rightarrow> 'x state" where
  "print_error args s = emit (Print Stderr (VStr ''ERROR:'' # args)) s"

definition os_path_exists :: "'x host \<Rightarrow> string \<Rightarrow> 'x state \<Rightarrow> bool \<times> 'x state" where
  "os_path_exists h p s =
     (path_exists (files s) (cwd h) p, emit (Exists p (path_exists (files s) (cwd h) p)) s)"

text \<open>\<open>os.remove\<close>: a regular file goes; a directory and a missing path raise.\<close>

definition os_remove :: "'x host \<Rightarrow> string \<Rightarrow> 'x state \<Rightarrow> (py_exn + unit) \<times> 'x state" where
  "os_remove h p s =
     (case resolve (files s) (cwd h) p of
        Inl e \<Rightarrow> (Inl e, emit (Remove p) s)
      | Inr loc \<Rightarrow>
          (case node_at (files s) loc of
             None \<Rightarrow> (Inl FileNotFoundError, emit (Remove p) s)
           | Some (Dir es) \<Rightarrow> (Inl IsADirectoryError, emit (Remove p) s)
           | Some File \<Rightarrow>
               (Inr (), emit (Remove p) (s\<lparr>files := set_node loc None (files s)\<rparr>))))"

text \<open>
  \<open>shutil.rmtree(p, ignore_errors=True)\<close>: when the path names a directory, all it
  holds is removed and then the directory itself with \<open>os.rmdir\<close>; every failure is
  ignored, so on anything else nothing happens.
\<close>

definition shutil_rmtree :: "'x host \<Rightarrow> string \<Rightarrow> 'x state \<Rightarrow> 'x state" where
  "shutil_rmtree h p s =
     emit (Rmtree p)
       (case resolve (files s) (cwd h) p of
          Inl e \<Rightarrow> s
        | Inr loc \<Rightarrow>
            (case node_at (files s) loc of
               Some (Dir es) \<Rightarrow>
                 s\<lparr>files := rmdir_quiet (cwd h) p (set_node loc (Some (Dir [])) (files s))\<rparr>
             | _ \<Rightarrow> s))"

definition os_makedirs :: "'x host \<Rightarrow> string \<Rightarrow> 'x state \<Rightarrow> (py_exn + unit) \<times> 'x state" where
  "os_makedirs h p s =
     (case makedirs (cwd h) p (files s) of
        (Some e, t) \<Rightarrow> (Inl e, emit (Makedirs p) (s\<lparr>files := t\<rparr>))
      | (None, t) \<Rightarrow> (Inr (), emit (Makedirs p) (s\<lparr>files := t\<rparr>)))"

definition time_sleep :: "real \<Rightarrow> 'x state \<Rightarrow> 'x state" where
  "time_sleep secs s = emit (Sleep secs) s"

text \<open>\<open>subprocess.run(argv, env=env)\<close>, and the same with \<open>check=True\<close>.\<close>

definition subprocess_run ::
  "'x host \<Rightarrow> string list \<Rightarrow> pydict option \<Rightarrow> 'x state \<Rightarrow> proc_result \<times> 'x state" where
  "subprocess_run h argv env s =
     (case spawn h argv env (files s, outside s) of
        (r, f, x) \<Rightarrow> (r, emit (Spawn argv env r) (s\<lparr>files := f, outside := x\<rparr>)))"


section \<open>The supervisor operations\<close>

definition derive_systemd_name :: "string \<Rightarrow> string \<Rightarrow> string" where
  "derive_systemd_name service config = ''example.'' @ service @ ''.'' @ config @ ''.service''"




definition WAIT_FOR_STARTUP :: real where
  "WAIT_FOR_STARTUP = 2"

definition systemd_start :: "'x host \<Rightarrow> string \<Rightarrow> 'x state \<Rightarrow> unit outcome \<times> 'x state" where
  "systemd_start h service_name s =
     (case subprocess_run h (str_split (''systemctl restart '' @ service_name)) None s of
        (SpawnError e, s1) \<Rightarrow> (Raised e, s1)
      | (Exited rc, s1) \<Rightarrow>
          if rc \<noteq> 0 then (Error (''Failed to start service: '' @ service_name), s1)
          else
            (case subprocess_run h (str_split (''systemctl -q status '' @ service_name)) None
                    (time_sleep WAIT_FOR_STARTUP s1) of
               (SpawnError e, s2) \<Rightarrow> (Raised e, s2)
             | (Exited rc', s2) \<Rightarrow>
                 if rc' \<noteq> 0 then
                   (case subprocess_run h (str_split (''systemctl stop '' @ service_name)) None s2 of
                      (SpawnError e, s3) \<Rightarrow> (Raised e, s3)
                    | (Exited rc'', s3) \<Rightarrow>
                        (Error (''Failed to get service status: '' @ service_name), s3))
                 else (Ok (), s2)))"

definition systemd_stop :: "'x host \<Rightarrow> string \<Rightarrow> 'x state \<Rightarrow> unit outcome \<times> 'x state" where
  "systemd_stop h service_name s =
     (case subprocess_run h (str_split (''systemctl stop '' @ service_name)) None s of
        (SpawnError e, s1) \<Rightarrow> (Raised e, s1)
      | (Exited rc, s1) \<Rightarrow>
          if rc \<noteq> 0 then (Error (''Failed to stop service: '' @ service_name), s1)
          else (Ok (), s1))"

definition copy_files :: "'x host \<Rightarrow> string \<Rightarrow> string \<Rightarrow> 'x state \<Rightarrow> unit outcome \<times> 'x state" where
  "copy_files h srcdir dstdir s =
     (case os_makedirs h dstdir (shutil_rmtree h dstdir s) of
        (Inl e, s1) \<Rightarrow> (Raised e, s1)
      | (Inr _, s1) \<Rightarrow>
          (case os_path_exists h srcdir s1 of
             (False, s2) \<Rightarrow> (Error (''Source directory not exists: '' @ srcdir), s2)
           | (True, s2) \<Rightarrow>
               (case subprocess_run h (str_split (''rsync -r '' @ srcdir @ ''/ '' @ dstdir)) None s2 of
                  (SpawnError e, s3) \<Rightarrow> (Raised e, s3)
                | (Exited rc, s3) \<Rightarrow>
                    if rc \<noteq> 0 then (Error ''Failed to copy files'', s3) else (Ok (), s3))))"

section \<open>String formatting\<close>

text \<open>
  \<open>str.format\<close> called with keyword arguments only, as \<open>deep_format\<close> calls it. The
  format string is read from left to right; a field is looked up as soon as its closing
  brace is read, so the first error in reading order is the one raised.
\<close>

datatype scan =
    Lit
  | LBrace
  | RBrace
  | FieldName bool string
  | Conversion string
  | ConversionEnd string char
  | FormatSpec nat string "char option" string

definition field_first :: "string \<Rightarrow> string" where
  "field_first name = takeWhile (\<lambda>c. c \<noteq> CHR ''.'' \<and> c \<noteq> CHR ''['') name"

definition field_rest :: "string \<Rightarrow> string" where
  "field_rest name = dropWhile (\<lambda>c. c \<noteq> CHR ''.'' \<and> c \<noteq> CHR ''['') name"

definition PY_SSIZE_T_MAX :: nat where
  "PY_SSIZE_T_MAX = 9223372036854775807"

text \<open>
  How the first part of a field name is read as an index: digit by digit from the
  left; a character that is no digit ends the reading with "not an integer", and a
  digit that would take the value above \<open>PY_SSIZE_T_MAX\<close> ends it with an error, whatever
  follows. The empty string is not an integer. Characters are single bytes here, among
  which the decimal digits are \<open>0\<close> to \<open>9\<close>.
\<close>

datatype int_parse = NotInteger | TooManyDigits | Index nat

fun get_integer_from :: "nat \<Rightarrow> string \<Rightarrow> int_parse" where
  "get_integer_from accumulator [] = Index accumulator"
| "get_integer_from accumulator (c # cs) =
     (if c \<notin> set ''0123456789'' then NotInteger
      else if accumulator > (PY_SSIZE_T_MAX - (of_char c - 48)) div 10 then TooManyDigits
      else get_integer_from (accumulator * 10 + (of_char c - 48)) cs)"

definition get_integer :: "string \<Rightarrow> int_parse" where
  "get_integer s = (if s = [] then NotInteger else get_integer_from 0 s)"

text \<open>
  The value of one replacement field. An empty or numeric first part indexes the
  positional arguments, of which there are none; any other first part is a keyword.
\<close>

definition get_field ::
  "'x host \<Rightarrow> (string \<times> string) list \<Rightarrow> string \<Rightarrow> char option \<Rightarrow> string \<Rightarrow> py_exn + string" where
  "get_field h kwargs name conv spec =
     (let first = field_first name; rest = field_rest name in
      case get_integer first of
        TooManyDigits \<Rightarrow> Inl ValueError
      | Index i \<Rightarrow> Inl IndexError
      | NotInteger \<Rightarrow>
          if first = [] then Inl IndexError
          else (case map_of kwargs first of
                  None \<Rightarrow> Inl (KeyError first)
                | Some v \<Rightarrow>
                    if rest = [] \<and> conv = None \<and> spec = [] then Inr v
                    else format_field h v rest conv spec))"

definition emit_field ::
  "'x host \<Rightarrow> (string \<times> string) list \<Rightarrow> string \<Rightarrow> string \<Rightarrow> char option \<Rightarrow> string
     \<Rightarrow> py_exn + (scan \<times> string)" where
  "emit_field h kwargs out name conv spec =
     (case get_field h kwargs name conv spec of
        Inl e \<Rightarrow> Inl e
      | Inr t \<Rightarrow> Inr (Lit, out @ t))"

definition name_step ::
  "'x host \<Rightarrow> (string \<times> string) list \<Rightarrow> string \<Rightarrow> bool \<Rightarrow> string \<Rightarrow> char
     \<Rightarrow> py_exn + (scan \<times> string)" where
  "name_step h kwargs out in_index name c =
     (if in_index then Inr (FieldName (c \<noteq> CHR '']'') (name @ [c]), out)
      else if c = CHR ''{'' then Inl ValueError
      else if c = CHR ''['' then Inr (FieldName True (name @ [c]), out)
      else if c = CHR ''}'' then emit_field h kwargs out name None []
      else if c = CHR ''!'' then Inr (Conversion name, out)
      else if c = CHR '':'' then Inr (FormatSpec 1 name None [], out)
      else Inr (FieldName False (name @ [c]), out))"

fun fmt_step ::
  "'x host \<Rightarrow> (string \<times> string) list \<Rightarrow> scan \<times> string \<Rightarrow> char \<Rightarrow> py_exn + (scan \<times> string)" where
  "fmt_step h kwargs (Lit, out) c =
     (if c = CHR ''{'' then Inr (LBrace, out)
      else if c = CHR ''}'' then Inr (RBrace, out)
      else Inr (Lit, out @ [c]))"
| "fmt_step h kwargs (LBrace, out) c =
     (if c = CHR ''{'' then Inr (Lit, out @ [c]) else name_step h kwargs out False [] c)"
| "fmt_step h kwargs (RBrace, out) c =
     (if c = CHR ''}'' then Inr (Lit, out @ [c]) else Inl ValueError)"
| "fmt_step h kwargs (FieldName in_index name, out) c = name_step h kwargs out in_index name c"
| "fmt_step h kwargs (Conversion name, out) c = Inr (ConversionEnd name c, out)"
| "fmt_step h kwargs (ConversionEnd name conv, out) c =
     (if c = CHR ''}'' then emit_field h kwargs out name (Some conv) []
      else if c = CHR '':'' then Inr (FormatSpec 1 name (Some conv) [], out)
      else Inl ValueError)"
| "fmt_step h kwargs (FormatSpec depth name conv spec, out) c =
     (if c = CHR ''{'' then Inr (FormatSpec (depth + 1) name conv (spec @ [c]), out)
      else if c = CHR ''}'' then
        (if depth = 1 then emit_field h kwargs out name conv spec
         else Inr (FormatSpec (depth - 1) name conv (spec @ [c]), out))
      else Inr (FormatSpec depth name conv (spec @ [c]), out))"

fun fmt_run ::
  "'x host \<Rightarrow> (string \<times> string) list \<Rightarrow> scan \<times> string \<Rightarrow> string \<Rightarrow> py_exn + string" where
  "fmt_run h kwargs st [] = (case st of (Lit, out) \<Rightarrow> Inr out | _ \<Rightarrow> Inl ValueError)"
| "fmt_run h kwargs st (c # cs) =
     (case fmt_step h kwargs st c of
        Inl e \<Rightarrow> Inl e
      | Inr st' \<Rightarrow> fmt_run h kwargs st' cs)"

definition str_format :: "'x host \<Rightarrow> string \<Rightarrow> (string \<times> string) list \<Rightarrow> py_exn + string" where
  "str_format h s kwargs = fmt_run h kwargs (Lit, []) s"

section \<open>Operations on dynamically typed values\<close>

text \<open>\<open>k in v\<close> and \<open>v[k]\<close> for a string \<open>k\<close>, and \<open>v.get(k, default)\<close>.\<close>

fun str_in :: "string \<Rightarrow> pyval \<Rightarrow> py_exn + bool" where
  "str_in k (VDict kvs) = Inr (dict_get kvs (VStr k) \<noteq> None)"
| "str_in k (VList xs) = Inr (VStr k \<in> set xs)"
| "str_in k (VStr s) = Inr (str_contains s k)"
| "str_in k v = Inl TypeError"

fun getitem_str :: "pyval \<Rightarrow> string \<Rightarrow> py_exn + pyval" where
  "getitem_str (VDict kvs) k = (case dict_get kvs (VStr k) of None \<Rightarrow> Inl (KeyError k) | Some v \<Rightarrow> Inr v)"
| "getitem_str v k = Inl TypeError"

fun py_get :: "pyval \<Rightarrow> string \<Rightarrow> pyval \<Rightarrow> py_exn + pyval" where
  "py_get (VDict kvs) k dflt = (case dict_get kvs (VStr k) of None \<Rightarrow> Inr dflt | Some v \<Rightarrow> Inr v)"
| "py_get v k dflt = Inl AttributeError"

text \<open>
  \<open>d.update(other)\<close>: a mapping is merged key by key; any other iterable must yield
  two-element items, each a key and a value.
\<close>

fun pair_of :: "pyval \<Rightarrow> py_exn + (pyval \<times> pyval)" where
  "pair_of (VList [k, v]) = Inr (k, v)"
| "pair_of (VList xs) = Inl ValueError"
| "pair_of (VStr [a, b]) = Inr (VStr [a], VStr [b])"
| "pair_of (VStr s) = Inl ValueError"
| "pair_of (VDict [(k1, v1), (k2, v2)]) = Inr (k1, k2)"
| "pair_of (VDict kvs) = Inl ValueError"
| "pair_of v = Inl TypeError"

fun update_seq :: "pydict \<Rightarrow> pyval list \<Rightarrow> py_exn + pydict" where
  "update_seq d [] = Inr d"
| "update_seq d (x # xs) =
     (case pair_of x of
        Inl e \<Rightarrow> Inl e
      | Inr (k, v) \<Rightarrow> if hashable k then update_seq (dict_set d k v) xs else Inl TypeError)"

definition dict_merge :: "pydict \<Rightarrow> pydict \<Rightarrow> pydict" where
  "dict_merge d other = fold (\<lambda>(k, v) acc. dict_set acc k v) other d"

definition dict_update :: "pydict \<Rightarrow> pyval \<Rightarrow> py_exn + pydict" where
  "dict_update d other =
     (case other of
        VDict kvs \<Rightarrow> Inr (dict_merge d kvs)
      | VList xs \<Rightarrow> update_seq d xs
      | VStr s \<Rightarrow> update_seq d (map (\<lambda>c. VStr [c]) s)
      | _ \<Rightarrow> Inl TypeError)"

section \<open>Settings resolution\<close>

fun deep_format :: "'x host \<Rightarrow> string \<Rightarrow> string \<Rightarrow> pyval \<Rightarrow> py_exn + pyval"
  and deep_format_items :: "'x host \<Rightarrow> string \<Rightarrow> string \<Rightarrow> pydict \<Rightarrow> pydict \<Rightarrow> py_exn + pydict"
  where
  "deep_format h service config (VDict kvs) =
     (case deep_format_items h service config kvs [] of
        Inl e \<Rightarrow> Inl e
      | Inr d \<Rightarrow> Inr (VDict d))"
| "deep_format h service config (VStr s) =
     (case str_format h s [(''service'', service), (''config'', config)] of
        Inl e \<Rightarrow> Inl e
      | Inr t \<Rightarrow> Inr (VStr t))"
| "deep_format h service config VNone = Inr VNone"
| "deep_format h service config (VBool b) = Inr (VBool b)"
| "deep_format h service config (VInt i) = Inr (VInt i)"
| "deep_format h service config (VList xs) = Inr (VList xs)"
| "deep_format_items h service config [] acc = Inr acc"
| "deep_format_items h service config ((k, v) # kvs) acc =
     (case deep_format h service config v of
        Inl e \<Rightarrow> Inl e
      | Inr v' \<Rightarrow> deep_format_items h service config kvs (dict_set acc k v'))"

text \<open>
  The strings \<open>deep_format\<close> formats: the string values reached through mappings
  only. A string inside a sequence is passed through as it is.
\<close>

fun str_leaves :: "pyval \<Rightarrow> string list"
  and str_leaves_items :: "pydict \<Rightarrow> string list"
  where
  "str_leaves (VStr s) = [s]"
| "str_leaves (VDict kvs) = str_leaves_items kvs"
| "str_leaves VNone = []"
| "str_leaves (VBool b) = []"
| "str_leaves (VInt i) = []"
| "str_leaves (VList xs) = []"
| "str_leaves_items [] = []"
| "str_leaves_items ((k, v) # kvs) = str_leaves v @ str_leaves_items kvs"

text \<open>
  A field name that is a plain keyword: not empty, not starting with a digit, and
  free of the characters that end or structure a field.
\<close>

definition keyword_name :: "string \<Rightarrow> bool" where
  "keyword_name n =
     (case n of
        [] \<Rightarrow> False
      | c # cs \<Rightarrow> c \<notin> set ''0123456789'' \<and> list_all (\<lambda>c. c \<notin> set ''{}[].!:'') n)"

text \<open>
  The error of the first string, in the order of the list, that \<open>deep_format\<close> fails to
  format; \<open>None\<close> when every string of the list is formatted.
\<close>

fun first_failure :: "'x host \<Rightarrow> string \<Rightarrow> string \<Rightarrow> string list \<Rightarrow> py_exn option" where
  "first_failure h service config [] = None"
| "first_failure h service config (t # ts) =
     (case str_format h t [(''service'', service), (''config'', config)] of
        Inl e \<Rightarrow> Some e
      | Inr out \<Rightarrow> first_failure h service config ts)"

text \<open>
  Lines 42 to 49 of \<open>load_settings\<close>: the formatted common section, overlaid with the
  chosen config, then the five injected keys.
\<close>

definition merged_settings :: "'x host \<Rightarrow> string \<Rightarrow> string \<Rightarrow> pyval \<Rightarrow> py_exn + pydict" where
  "merged_settings h service config descriptor =
     (case py_get descriptor ''common'' (VDict []) of
        Inl e \<Rightarrow> Inl e
      | Inr settings_common \<Rightarrow>
     (case deep_format h service config settings_common of
        Inl e \<Rightarrow> Inl e
      | Inr (VDict settings) \<Rightarrow>
         (case getitem_str descriptor ''configs'' of
            Inl e \<Rightarrow> Inl e
          | Inr configs \<Rightarrow>
         (case getitem_str configs config of
            Inl e \<Rightarrow> Inl e
          | Inr override \<Rightarrow>
         (case dict_update settings (if truthy override then override else VDict []) of
            Inl e \<Rightarrow> Inl e
          | Inr settings1 \<Rightarrow>
              Inr (dict_set (dict_set (dict_set (dict_set (dict_set settings1
                     (VStr ''SERVICE'') (VStr service))
                     (VStr ''CONFIG'') (VStr config))
                     (VStr ''HOME'') (VStr (here h)))
                     (VStr ''PYTHON_CMD'') (VStr (executable h)))
                     (VStr ''LOGGING_DIR'') (VStr ''/var/log/example'')))))
      | Inr other \<Rightarrow> Inl AttributeError))"

text \<open>Lines 51 to 53: the keys of \<open>settings['env']\<close> get the prefix.\<close>

definition prefix_env :: "'x host \<Rightarrow> pyval \<Rightarrow> pydict \<Rightarrow> py_exn + pydict" where
  "prefix_env h descriptor settings =
     (case py_get descriptor ''env_prefix'' VNone of
        Inl e \<Rightarrow> Inl e
      | Inr env_prefix \<Rightarrow>
          if truthy env_prefix then
            (case dict_get settings (VStr ''env'') of
               None \<Rightarrow> Inl (KeyError ''env'')
             | Some (VDict items) \<Rightarrow>
                 Inr (dict_set settings (VStr ''env'')
                        (VDict (fold (\<lambda>(k, v) acc.
                                   dict_set acc (VStr (py_str h env_prefix @ ''_'' @ py_str h k)) v)
                                 items [])))
             | Some other \<Rightarrow> Inl AttributeError)
          else Inr settings)"

definition descriptor_path :: "'x host \<Rightarrow> string \<Rightarrow> string" where
  "descriptor_path h service = os_path_join (here h) [''services'', service @ ''.yaml'']"

definition load_settings :: "'x host \<Rightarrow> string \<Rightarrow> string \<Rightarrow> pydict outcome" where
  "load_settings h service config =
     (case load_yaml h (descriptor_path h service) of
        Inl e \<Rightarrow> Error (''Failed to load descriptor for service ['' @ service @ '']: '' @ exn_str h e)
      | Inr descriptor \<Rightarrow>
          if \<not> truthy descriptor then Error ''Service descriptor invalid or empty''
          else
     (case str_in ''configs'' descriptor of
        Inl e \<Rightarrow> Raised e
      | Inr False \<Rightarrow> Error ''Service descriptor invalid or empty''
      | Inr True \<Rightarrow>
     (case getitem_str descriptor ''configs'' of
        Inl e \<Rightarrow> Raised e
      | Inr configs \<Rightarrow>
     (case str_in config configs of
        Inl e \<Rightarrow> Raised e
      | Inr False \<Rightarrow> Error (''Config definition not found: '' @ config)
      | Inr True \<Rightarrow>
     (case merged_settings h service config descriptor of
        Inl e \<Rightarrow> Raised e
      | Inr settings \<Rightarrow>
     (case prefix_env h descriptor settings of
        Inl e \<Rightarrow> Raised e
      | Inr settings' \<Rightarrow> Ok settings'))))))"

section \<open>The commands \<open>run\<close> and \<open>do\<close>\<close>

text \<open>
  How the process ends: \<open>sys.exit(n)\<close> or a normal return (status 0), or an uncaught
  exception, on which the interpreter prints a traceback and exits with status 1.
\<close>

datatype exit = Exit int | Traceback py_exn

fun exit_code :: "exit \<Rightarrow> int" where
  "exit_code (Exit n) = n"
| "exit_code (Traceback e) = 1"

definition guess_and_fix_command ::
  "'x host \<Rightarrow> pyval \<Rightarrow> 'x state \<Rightarrow> (py_exn + string) \<times> 'x state" where
  "guess_and_fix_command h cmdline s =
     (case cmdline of
        VStr line \<Rightarrow>
          (case str_split line of
             [] \<Rightarrow> (Inl IndexError, s)
           | first_arg # rest_args \<Rightarrow>
               if endswith first_arg ''.py''
               then (Inr (executable h @ '' '' @ str_join '' '' (first_arg # rest_args)), s)
               else
                 (let pythondir = abspath h (os_path_dirname (executable h));
                      possible_executable_name = os_path_join pythondir [first_arg]
                  in case os_path_exists h possible_executable_name s of
                       (True, s1) \<Rightarrow>
                         (Inr (possible_executable_name @ '' '' @ str_join '' '' rest_args), s1)
                     | (False, s1) \<Rightarrow> (Inr line, s1)))
      | _ \<Rightarrow> (Inl AttributeError, s))"

text \<open>
  The two lines that \<open>run\<close> and \<open>do\<close> share: a copy of \<open>os.environ\<close>, updated with the
  values of \<open>settings['env']\<close> as text.
\<close>

definition job_env :: "'x host \<Rightarrow> pydict \<Rightarrow> py_exn + pydict" where
  "job_env h settings =
     (case dict_get settings (VStr ''env'') of
        None \<Rightarrow> Inl (KeyError ''env'')
      | Some (VDict items) \<Rightarrow>
          Inr (dict_merge (map (\<lambda>(k, v). (VStr k, VStr v)) (environ h))
                 (fold (\<lambda>(k, v) acc. dict_set acc k (VStr (py_str h v))) items []))
      | Some other \<Rightarrow> Inl AttributeError)"

definition run :: "'x host \<Rightarrow> string \<Rightarrow> string \<Rightarrow> 'x state \<Rightarrow> exit \<times> 'x state" where
  "run h service config s =
     (case load_settings h service config of
        Raised e \<Rightarrow> (Traceback e, s)
      | Error error \<Rightarrow> (Exit 1, print_error [VStr error] s)
      | Ok settings \<Rightarrow>
          (let run_command_args =
                 (case dict_get settings (VStr ''run'') of None \<Rightarrow> VNone | Some v \<Rightarrow> v)
           in if \<not> truthy run_command_args
              then (Exit 1, print_error [VStr ''Settings do not have run command specified''] s)
              else
     (case guess_and_fix_command h run_command_args s of
        (Inl e, s1) \<Rightarrow> (Traceback e, s1)
      | (Inr run_command, s1) \<Rightarrow>
     (case job_env h settings of
        Inl e \<Rightarrow> (Traceback e, s1)
      | Inr env \<Rightarrow>
     (case subprocess_run h (str_split run_command) (Some env) s1 of
        (SpawnError e, s2) \<Rightarrow> (Traceback e, s2)
      | (Exited returncode, s2) \<Rightarrow>
          if returncode \<noteq> 0
          then (Exit 1,
                print_error [VStr ''Service stopped with return code:'', VInt returncode] s2)
          else (Exit 0, s2))))))"

definition do ::
  "'x host \<Rightarrow> string \<Rightarrow> string \<Rightarrow> string \<Rightarrow> string list \<Rightarrow> 'x state \<Rightarrow> exit \<times> 'x state" where
  "do h service config action args s =
     (case load_settings h service config of
        Raised e \<Rightarrow> (Traceback e, s)
      | Error error \<Rightarrow> (Exit 1, print_error [VStr error] s)
      | Ok settings \<Rightarrow>
     (case dict_get settings (VStr ''actions'') of
        None \<Rightarrow> (Exit 1, print_error [VStr ''No actions found for service''] s)
      | Some actions \<Rightarrow>
     (case py_get actions action VNone of
        Inl e \<Rightarrow> (Traceback e, s)
      | Inr action_command_base_args \<Rightarrow>
          if \<not> truthy action_command_base_args
          then (Exit 1,
                print_error
                  [VStr (''Settings do not have action ['' @ action @ ''] command specified'')] s)
          else
     (case guess_and_fix_command h
             (VStr (py_str h action_command_base_args @ '' '' @ str_join '' '' args)) s of
        (Inl e, s1) \<Rightarrow> (Traceback e, s1)
      | (Inr action_command, s1) \<Rightarrow>
     (case job_env h settings of
        Inl e \<Rightarrow> (Traceback e, s1)
      | Inr env \<Rightarrow>
     (case subprocess_run h (str_split action_command) (Some env) s1 of
        (SpawnError e, s2) \<Rightarrow> (Traceback e, s2)
      | (Exited returncode, s2) \<Rightarrow>
          if returncode \<noteq> 0
          then (Exit 1,
                print_error [VStr ''Command stopped with return code:'', VInt returncode] s2)
          else (Exit 0, s2)))))))"

section \<open>A scripted host for concrete runs\<close>

text \<open>
  Descriptors come from a table of documents by path; the outside state is the list of
  exit statuses the next commands will report (status 0 once the list is used up);
  commands leave the file tree alone.
\<close>

definition scripted_spawn ::
  "string list \<Rightarrow> pydict option \<Rightarrow> node \<times> int list \<Rightarrow> proc_result \<times> node \<times> int list" where
  "scripted_spawn argv env st =
     (case st of
        (f, []) \<Rightarrow> (Exited 0, f, [])
      | (f, rc # rcs) \<Rightarrow> (Exited rc, f, rcs))"

definition scripted_host :: "(string \<times> pyval) list \<Rightarrow> int list host" where
  "scripted_host docs =
     \<lparr>here = ''/srv/app'',
      executable = ''/srv/venv/bin/python'',
      environ = [(''PATH'', ''/usr/bin'')],
      cwd = [''srv'', ''app''],
      load_yaml = (\<lambda>p. case map_of docs p of None \<Rightarrow> Inl FileNotFoundError | Some d \<Rightarrow> Inr d),
      abspath = (\<lambda>p. p),
      exn_str = (\<lambda>e. ''exception''),
      container_str = (\<lambda>v. ''container''),
      format_field = (\<lambda>v rest conv spec. Inl ValueError),
      spawn = scripted_spawn\<rparr>"

section \<open>Properties of the file tree\<close>










lemma split_slash_not_Nil [simp]: "split_slash p \<noteq> []"
  by (induction p) (auto split: list.splits)
















section \<open>Properties of the supervisor operations\<close>

lemma restart_argv:
  "str_split (''systemctl restart '' @ n) = ''systemctl'' # ''restart'' # str_split n"
  by (simp add: str_split_def is_space_def)

lemma status_argv:
  "str_split (''systemctl -q status '' @ n) = ''systemctl'' # ''-q'' # ''status'' # str_split n"
  by (simp add: str_split_def is_space_def)

lemma stop_argv:
  "str_split (''systemctl stop '' @ n) = ''systemctl'' # ''stop'' # str_split n"
  by (simp add: str_split_def is_space_def)








text \<open>
  C5. When the restart command exits with a non-zero status, \<open>systemd_start\<close> returns
  the start error at once: the restart is the only thing it has done, so there was no
  settle delay, no status probe and no stop command.
\<close>

theorem start_restart_failure:
  assumes "spawn h (''systemctl'' # ''restart'' # str_split service_name) None (files s, outside s)
             = (Exited rc, f, x)"
    and "rc \<noteq> 0"
  shows "systemd_start h service_name s =
           (Error (''Failed to start service: '' @ service_name),
            s\<lparr>files := f, outside := x,
              trace := trace s @
                [Spawn (''systemctl'' # ''restart'' # str_split service_name) None (Exited rc)]\<rparr>)"
  unfolding systemd_start_def restart_argv
  using assms by (simp add: subprocess_run_def emit_def)

theorem start_restart_failure_witness:
  "systemd_start (scripted_host []) ''example.api.prod.service''
     \<lparr>files = Dir [], outside = [1], trace = []\<rparr>
   = (Error ''Failed to start service: example.api.prod.service'',
      \<lparr>files = Dir [], outside = [],
       trace = [Spawn [''systemctl'', ''restart'', ''example.api.prod.service''] None (Exited 1)]\<rparr>)"
  using start_restart_failure [of "scripted_host []" "''example.api.prod.service''"
      "\<lparr>files = Dir [], outside = [1], trace = []\<rparr>" 1 "Dir []" "[]"]
  by (simp add: scripted_host_def scripted_spawn_def str_split_def is_space_def)

text \<open>
  C6. When the restart command exits with status 0 and the status probe after the
  settle delay exits with a non-zero status, \<open>systemd_start\<close> issues exactly one stop
  command and returns the start error. What it has done is the restart, the delay of
  two seconds, the probe and the stop, in this order: no disable command is among
  them, so the unit stays enabled.
\<close>

theorem start_unhealthy:
  assumes "spawn h (''systemctl'' # ''restart'' # str_split service_name) None (files s, outside s)
             = (Exited 0, f1, x1)"
    and "spawn h (''systemctl'' # ''-q'' # ''status'' # str_split service_name) None (f1, x1)
             = (Exited rc, f2, x2)"
    and "rc \<noteq> 0"
    and "spawn h (''systemctl'' # ''stop'' # str_split service_name) None (f2, x2)
             = (Exited rc', f3, x3)"
  shows "systemd_start h service_name s =
           (Error (''Failed to get service status: '' @ service_name),
            s\<lparr>files := f3, outside := x3,
              trace := trace s @
                [Spawn (''systemctl'' # ''restart'' # str_split service_name) None (Exited 0),
                 Sleep 2,
                 Spawn (''systemctl'' # ''-q'' # ''status'' # str_split service_name) None (Exited rc),
                 Spawn (''systemctl'' # ''stop'' # str_split service_name) None (Exited rc')]\<rparr>)"
  unfolding systemd_start_def restart_argv status_argv stop_argv
  using assms by (simp add: subprocess_run_def emit_def time_sleep_def WAIT_FOR_STARTUP_def)

theorem start_unhealthy_witness:
  "systemd_start (scripted_host []) ''example.api.prod.service''
     \<lparr>files = Dir [], outside = [0, 3], trace = []\<rparr>
   = (Error ''Failed to get service status: example.api.prod.service'',
      \<lparr>files = Dir [], outside = [],
       trace = [Spawn [''systemctl'', ''restart'', ''example.api.prod.service''] None (Exited 0),
                Sleep 2,
                Spawn [''systemctl'', ''-q'', ''status'', ''example.api.prod.service''] None (Exited 3),
                Spawn [''systemctl'', ''stop'', ''example.api.prod.service''] None (Exited 0)]\<rparr>)"
  using start_unhealthy [of "scripted_host []" "''example.api.prod.service''"
      "\<lparr>files = Dir [], outside = [0, 3], trace = []\<rparr>" "Dir []" "[3]" 3 "Dir []" "[]"
      0 "Dir []" "[]"]
  by (simp add: scripted_host_def scripted_spawn_def str_split_def is_space_def)

section \<open>Properties of asset staging\<close>






lemmas tree_defs =
  resolve_def os_stat_def path_exists_def strip_slashes_def os_mkdir_def rmdir_quiet_def
  os_path_split_def makedirs_split_def makedirs.simps set_entry_def shutil_rmtree_def
  os_makedirs_def os_path_exists_def os_remove_def emit_def




text \<open>
  Three more runs of \<open>copy_files\<close> with a missing source: a relative destination with a
  trailing slash is emptied all the same; the empty destination path makes
  \<open>os.makedirs\<close> raise \<open>FileNotFoundError\<close>; a destination that does not exist yet is
  made together with its missing parent.
\<close>

lemma copy_files_relative_destination:
  "copy_files (scripted_host []) ''project_static'' ''www/''
      \<lparr>files = Dir [(''srv'', Dir [(''app'', Dir [(''www'', Dir [(''old.css'', File)])])])],
       outside = [], trace = []\<rparr>
     = (Error ''Source directory not exists: project_static'',
        \<lparr>files = Dir [(''srv'', Dir [(''app'', Dir [(''www'', Dir [])])])],
         outside = [],
         trace = [Rmtree ''www/'', Makedirs ''www/'', Exists ''project_static'' False]\<rparr>)"
  by (simp add: copy_files_def scripted_host_def tree_defs)

lemma copy_files_empty_destination:
  "copy_files (scripted_host []) ''project_static'' ''''
      \<lparr>files = Dir [(''srv'', Dir [(''app'', Dir [])])], outside = [], trace = []\<rparr>
     = (Raised FileNotFoundError,
        \<lparr>files = Dir [(''srv'', Dir [(''app'', Dir [])])], outside = [],
         trace = [Rmtree '''', Makedirs '''']\<rparr>)"
  by (simp add: copy_files_def scripted_host_def tree_defs)

lemma copy_files_new_destination:
  "copy_files (scripted_host []) ''project_static'' ''/srv/www/static''
      \<lparr>files = Dir [(''srv'', Dir [(''app'', Dir [])])], outside = [], trace = []\<rparr>
     = (Error ''Source directory not exists: project_static'',
        \<lparr>files = Dir [(''srv'', Dir [(''www'', Dir [(''static'', Dir [])]), (''app'', Dir [])])],
         outside = [],
         trace = [Rmtree ''/srv/www/static'', Makedirs ''/srv/www/static'',
                  Exists ''project_static'' False]\<rparr>)"
  by (simp add: copy_files_def scripted_host_def tree_defs)

section \<open>Properties of settings resolution\<close>

lemma key_eq_VStr [simp]: "key_eq (VStr a) (VStr b) = (a = b)"
  by (simp add: key_eq_def)

lemma key_eq_refl [simp]: "key_eq k k"
  by (simp add: key_eq_def)

lemma dict_get_set_same: "dict_get (dict_set d k v) k = Some v"
  by (induction d) (auto simp: key_eq_def)

lemma dict_get_set_other: "\<not> key_eq k k' \<Longrightarrow> dict_get (dict_set d k v) k' = dict_get d k'"
  by (induction d) (auto simp: key_eq_def)

lemmas settings_defs =
  load_settings_def descriptor_path_def merged_settings_def prefix_env_def dict_update_def
  dict_merge_def str_format_def name_step_def emit_field_def get_field_def field_first_def
  field_rest_def get_integer_def key_eq_def startswith_def endswith_def scripted_host_def
  py_str_def

lemma merged_settings_injected:
  assumes "merged_settings h service config descriptor = Inr m"
  shows "dict_get m (VStr ''SERVICE'') = Some (VStr service)
       \<and> dict_get m (VStr ''CONFIG'') = Some (VStr config)
       \<and> dict_get m (VStr ''HOME'') = Some (VStr (here h))
       \<and> dict_get m (VStr ''PYTHON_CMD'') = Some (VStr (executable h))
       \<and> dict_get m (VStr ''LOGGING_DIR'') = Some (VStr ''/var/log/example'')"
  using assms
  by (auto simp: merged_settings_def dict_get_set_same dict_get_set_other
      split: sum.splits pyval.splits)

lemma prefix_env_keeps:
  assumes "prefix_env h descriptor m = Inr settings" and "k \<noteq> ''env''"
  shows "dict_get settings (VStr k) = dict_get m (VStr k)"
  using assms
  by (auto simp: prefix_env_def dict_get_set_other
      split: sum.splits option.splits pyval.splits if_splits)

lemma load_settings_Ok:
  assumes "load_settings h service config = Ok settings"
  obtains descriptor m where "load_yaml h (descriptor_path h service) = Inr descriptor"
    and "merged_settings h service config descriptor = Inr m"
    and "prefix_env h descriptor m = Inr settings"
  using assms
  by (auto simp: load_settings_def split: sum.splits if_splits bool.splits)

text \<open>
  C3. Whatever the descriptor holds, a successful settings resolution yields a mapping
  in which \<open>SERVICE\<close>, \<open>CONFIG\<close>, \<open>HOME\<close>, \<open>PYTHON_CMD\<close> and \<open>LOGGING_DIR\<close> hold the
  injected values: the service name, the config name, the install root, the
  interpreter path and the logging directory constant.
\<close>

theorem injected_keys_win:
  assumes "load_settings h service config = Ok settings"
  shows "dict_get settings (VStr ''SERVICE'') = Some (VStr service)
       \<and> dict_get settings (VStr ''CONFIG'') = Some (VStr config)
       \<and> dict_get settings (VStr ''HOME'') = Some (VStr (here h))
       \<and> dict_get settings (VStr ''PYTHON_CMD'') = Some (VStr (executable h))
       \<and> dict_get settings (VStr ''LOGGING_DIR'') = Some (VStr ''/var/log/example'')"
proof -
  from assms obtain descriptor m
    where m: "merged_settings h service config descriptor = Inr m"
      and p: "prefix_env h descriptor m = Inr settings"
    by (rule load_settings_Ok)
  show ?thesis
    using merged_settings_injected [OF m] by (simp add: prefix_env_keeps [OF p])
qed

theorem injected_keys_win_witness:
  "load_settings
     (scripted_host [(''/srv/app/services/api.yaml'',
         VDict [(VStr ''common'',
                  VDict [(VStr ''SERVICE'', VStr ''{config}''), (VStr ''HOME'', VStr ''/tmp''),
                         (VStr ''env'', VDict [(VStr ''PORT'', VInt 80)])]),
                (VStr ''configs'',
                  VDict [(VStr ''prod'',
                    VDict [(VStr ''CONFIG'', VStr ''other''), (VStr ''PYTHON_CMD'', VInt 3),
                           (VStr ''LOGGING_DIR'', VNone)])]),
                (VStr ''env_prefix'', VStr ''APP'')])])
     ''api'' ''prod''
   = Ok [(VStr ''SERVICE'', VStr ''api''), (VStr ''HOME'', VStr ''/srv/app''),
         (VStr ''env'', VDict [(VStr ''APP_PORT'', VInt 80)]),
         (VStr ''CONFIG'', VStr ''prod''),
         (VStr ''PYTHON_CMD'', VStr ''/srv/venv/bin/python''),
         (VStr ''LOGGING_DIR'', VStr ''/var/log/example'')]
   \<and> dict_get [(VStr ''SERVICE'', VStr ''api''), (VStr ''HOME'', VStr ''/srv/app''),
         (VStr ''env'', VDict [(VStr ''APP_PORT'', VInt 80)]),
         (VStr ''CONFIG'', VStr ''prod''),
         (VStr ''PYTHON_CMD'', VStr ''/srv/venv/bin/python''),
         (VStr ''LOGGING_DIR'', VStr ''/var/log/example'')] (VStr ''SERVICE'')
       = Some (VStr ''api'')
   \<and> dict_get [(VStr ''SERVICE'', VStr ''api''), (VStr ''HOME'', VStr ''/srv/app''),
         (VStr ''env'', VDict [(VStr ''APP_PORT'', VInt 80)]),
         (VStr ''CONFIG'', VStr ''prod''),
         (VStr ''PYTHON_CMD'', VStr ''/srv/venv/bin/python''),
         (VStr ''LOGGING_DIR'', VStr ''/var/log/example'')] (VStr ''PYTHON_CMD'')
       = Some (VStr ''/srv/venv/bin/python'')"
proof -
  let ?h = "scripted_host [(''/srv/app/services/api.yaml'',
         VDict [(VStr ''common'',
                  VDict [(VStr ''SERVICE'', VStr ''{config}''), (VStr ''HOME'', VStr ''/tmp''),
                         (VStr ''env'', VDict [(VStr ''PORT'', VInt 80)])]),
                (VStr ''configs'',
                  VDict [(VStr ''prod'',
                    VDict [(VStr ''CONFIG'', VStr ''other''), (VStr ''PYTHON_CMD'', VInt 3),
                           (VStr ''LOGGING_DIR'', VNone)])]),
                (VStr ''env_prefix'', VStr ''APP'')])]"
  let ?r = "[(VStr ''SERVICE'', VStr ''api''), (VStr ''HOME'', VStr ''/srv/app''),
         (VStr ''env'', VDict [(VStr ''APP_PORT'', VInt 80)]),
         (VStr ''CONFIG'', VStr ''prod''),
         (VStr ''PYTHON_CMD'', VStr ''/srv/venv/bin/python''),
         (VStr ''LOGGING_DIR'', VStr ''/var/log/example'')]"
  have ok: "load_settings ?h ''api'' ''prod'' = Ok ?r"
    by (simp add: settings_defs)
  from injected_keys_win [OF ok]
  have "dict_get ?r (VStr ''SERVICE'') = Some (VStr ''api'')"
    and "dict_get ?r (VStr ''PYTHON_CMD'') = Some (VStr (executable ?h))"
    by blast+
  then show ?thesis using ok by (simp add: scripted_host_def)
qed

text \<open>
  C8. The descriptor \<open>{common: {x: "{service}-{config}"}, configs: {prod: {}}}\<close>,
  resolved for service \<open>api\<close> and config \<open>prod\<close>, gives a mapping with \<open>x\<close> equal to
  \<open>api-prod\<close>, \<open>SERVICE\<close> equal to \<open>api\<close>, \<open>CONFIG\<close> equal to \<open>prod\<close>, and the three
  other injected keys: the install root, the interpreter path and the logging
  directory.
\<close>

theorem scenario_api_prod:
  assumes "load_yaml h (descriptor_path h ''api'')
      = Inr (VDict [(VStr ''common'', VDict [(VStr ''x'', VStr ''{service}-{config}'')]),
                    (VStr ''configs'', VDict [(VStr ''prod'', VDict [])])])"
  shows "load_settings h ''api'' ''prod''
      = Ok [(VStr ''x'', VStr ''api-prod''),
            (VStr ''SERVICE'', VStr ''api''),
            (VStr ''CONFIG'', VStr ''prod''),
            (VStr ''HOME'', VStr (here h)),
            (VStr ''PYTHON_CMD'', VStr (executable h)),
            (VStr ''LOGGING_DIR'', VStr ''/var/log/example'')]"
  using assms
  by (simp add: load_settings_def merged_settings_def prefix_env_def dict_update_def
      dict_merge_def str_format_def name_step_def emit_field_def get_field_def field_first_def
      field_rest_def get_integer_def key_eq_def)

theorem scenario_api_prod_witness:
  "load_settings
     (scripted_host [(''/srv/app/services/api.yaml'',
        VDict [(VStr ''common'', VDict [(VStr ''x'', VStr ''{service}-{config}'')]),
               (VStr ''configs'', VDict [(VStr ''prod'', VDict [])])])])
     ''api'' ''prod''
   = Ok [(VStr ''x'', VStr ''api-prod''),
         (VStr ''SERVICE'', VStr ''api''),
         (VStr ''CONFIG'', VStr ''prod''),
         (VStr ''HOME'', VStr ''/srv/app''),
         (VStr ''PYTHON_CMD'', VStr ''/srv/venv/bin/python''),
         (VStr ''LOGGING_DIR'', VStr ''/var/log/example'')]"
  using scenario_api_prod [of "scripted_host [(''/srv/app/services/api.yaml'',
        VDict [(VStr ''common'', VDict [(VStr ''x'', VStr ''{service}-{config}'')]),
               (VStr ''configs'', VDict [(VStr ''prod'', VDict [])])])]"]
  by (simp add: scripted_host_def descriptor_path_def startswith_def endswith_def)

text \<open>
  C7 as the claim states it fails: an empty \<open>configs\<close> mapping gets the very message
  that a non-empty one without the requested name gets.
\<close>

theorem empty_configs_same_message:
  "load_settings
     (scripted_host [(''/srv/app/services/api.yaml'',
        VDict [(VStr ''common'', VDict []), (VStr ''configs'', VDict [])])])
     ''api'' ''prod''
   = Error ''Config definition not found: prod''
   \<and> load_settings
     (scripted_host [(''/srv/app/services/api.yaml'',
        VDict [(VStr ''common'', VDict []), (VStr ''configs'', VDict [(VStr ''dev'', VDict [])])])])
     ''api'' ''prod''
   = Error ''Config definition not found: prod''"
  by (simp add: settings_defs)

text \<open>
  C7, amended. A descriptor that cannot be loaded, a falsy descriptor and a mapping
  without the key \<open>configs\<close> give messages that differ from the one for a config name
  that \<open>configs\<close> does not hold; the first is the load failure message, the other two
  are the message of an invalid or empty descriptor. A \<open>configs\<close> mapping that lacks
  the requested name, empty or not, gives the message that the config definition was
  not found.
\<close>

theorem failure_messages:
  "(load_yaml h (descriptor_path h service) = Inl e
      \<longrightarrow> load_settings h service config
            = Error (''Failed to load descriptor for service ['' @ service @ '']: '' @ exn_str h e))
   \<and> (load_yaml h (descriptor_path h service) = Inr descriptor
        \<and> (\<not> truthy descriptor \<or> (\<exists>d. descriptor = VDict d \<and> dict_get d (VStr ''configs'') = None))
      \<longrightarrow> load_settings h service config = Error ''Service descriptor invalid or empty'')
   \<and> (load_yaml h (descriptor_path h service) = Inr (VDict d)
        \<and> dict_get d (VStr ''configs'') = Some (VDict configs)
        \<and> dict_get configs (VStr config) = None
      \<longrightarrow> load_settings h service config = Error (''Config definition not found: '' @ config))
   \<and> ''Service descriptor invalid or empty'' \<noteq> ''Config definition not found: '' @ config
   \<and> ''Failed to load descriptor for service ['' @ service @ '']: '' @ exn_str h e
        \<noteq> ''Config definition not found: '' @ config"
proof (intro conjI impI)
  assume "load_yaml h (descriptor_path h service) = Inl e"
  then show "load_settings h service config
      = Error (''Failed to load descriptor for service ['' @ service @ '']: '' @ exn_str h e)"
    by (simp add: load_settings_def)
next
  assume "load_yaml h (descriptor_path h service) = Inr descriptor
        \<and> (\<not> truthy descriptor \<or> (\<exists>d. descriptor = VDict d \<and> dict_get d (VStr ''configs'') = None))"
  then show "load_settings h service config = Error ''Service descriptor invalid or empty''"
    by (auto simp: load_settings_def)
next
  assume a: "load_yaml h (descriptor_path h service) = Inr (VDict d)
        \<and> dict_get d (VStr ''configs'') = Some (VDict configs)
        \<and> dict_get configs (VStr config) = None"
  then have "d \<noteq> []" by auto
  with a show "load_settings h service config = Error (''Config definition not found: '' @ config)"
    by (simp add: load_settings_def)
qed simp_all

theorem failure_messages_witness:
  "load_settings
     (scripted_host
        [(''/srv/app/services/web.yaml'', VDict [(VStr ''common'', VDict [])]),
         (''/srv/app/services/api.yaml'',
            VDict [(VStr ''common'', VDict []), (VStr ''configs'', VDict [])])])
     ''gone'' ''prod''
   = Error ''Failed to load descriptor for service [gone]: exception''
   \<and> load_settings
     (scripted_host
        [(''/srv/app/services/web.yaml'', VDict [(VStr ''common'', VDict [])]),
         (''/srv/app/services/api.yaml'',
            VDict [(VStr ''common'', VDict []), (VStr ''configs'', VDict [])])])
     ''web'' ''prod''
   = Error ''Service descriptor invalid or empty''
   \<and> load_settings
     (scripted_host
        [(''/srv/app/services/web.yaml'', VDict [(VStr ''common'', VDict [])]),
         (''/srv/app/services/api.yaml'',
            VDict [(VStr ''common'', VDict []), (VStr ''configs'', VDict [])])])
     ''api'' ''prod''
   = Error ''Config definition not found: prod''"
proof -
  let ?h = "scripted_host
        [(''/srv/app/services/web.yaml'', VDict [(VStr ''common'', VDict [])]),
         (''/srv/app/services/api.yaml'',
            VDict [(VStr ''common'', VDict []), (VStr ''configs'', VDict [])])]"
  have "load_settings ?h ''gone'' ''prod''
      = Error (''Failed to load descriptor for service ['' @ ''gone'' @ '']: ''
          @ exn_str ?h FileNotFoundError)"
    using failure_messages [where h = ?h and service = "''gone''" and e = FileNotFoundError
        and config = "''prod''"]
    by (simp add: scripted_host_def descriptor_path_def startswith_def endswith_def)
  moreover have "load_settings ?h ''web'' ''prod'' = Error ''Service descriptor invalid or empty''"
    using failure_messages [where h = ?h and service = "''web''" and config = "''prod''"
        and descriptor = "VDict [(VStr ''common'', VDict [])]"]
    by (simp add: scripted_host_def descriptor_path_def startswith_def endswith_def)
  moreover have "load_settings ?h ''api'' ''prod'' = Error (''Config definition not found: '' @ ''prod'')"
    using failure_messages [where h = ?h and service = "''api''" and config = "''prod''"
        and d = "[(VStr ''common'', VDict []), (VStr ''configs'', VDict [])]" and configs = "[]"]
    by (simp add: scripted_host_def descriptor_path_def startswith_def endswith_def)
  ultimately show ?thesis by (simp add: scripted_host_def)
qed

text \<open>
  C9 as the claim states it fails: with \<open>env_prefix\<close> set and no \<open>env\<close> in the merged
  settings, resolution ends in an uncaught \<open>KeyError\<close>.
\<close>

theorem env_prefix_without_env_crashes:
  "load_settings
     (scripted_host [(''/srv/app/services/api.yaml'',
        VDict [(VStr ''env_prefix'', VStr ''APP''),
               (VStr ''configs'', VDict [(VStr ''prod'', VDict [(VStr ''run'', VStr ''server.py'')])])])])
     ''api'' ''prod''
   = Raised (KeyError ''env'')"
  by (simp add: settings_defs)

text \<open>
  C9, amended. When the descriptor passes the presence checks, the merge succeeds,
  \<open>env_prefix\<close> is truthy and the merged settings hold no key \<open>env\<close>, settings
  resolution raises \<open>KeyError('env')\<close>, uncaught: the prefixing step runs whenever
  \<open>env_prefix\<close> is truthy and needs an \<open>env\<close> mapping.
\<close>

theorem env_prefix_without_env_raises:
  assumes "load_yaml h (descriptor_path h service) = Inr (VDict d)"
    and "dict_get d (VStr ''configs'') = Some configs"
    and "str_in config configs = Inr True"
    and "merged_settings h service config (VDict d) = Inr m"
    and "dict_get d (VStr ''env_prefix'') = Some p"
    and "truthy p"
    and "dict_get m (VStr ''env'') = None"
  shows "load_settings h service config = Raised (KeyError ''env'')"
proof -
  have "d \<noteq> []" using assms(2) by auto
  then show ?thesis
    using assms by (simp add: load_settings_def prefix_env_def)
qed

theorem env_prefix_without_env_raises_witness:
  "load_settings
     (scripted_host [(''/srv/app/services/api.yaml'',
        VDict [(VStr ''common'', VDict [(VStr ''x'', VStr ''{service}'')]),
               (VStr ''configs'', VDict [(VStr ''prod'', VDict [])]),
               (VStr ''env_prefix'', VStr ''APP'')])])
     ''api'' ''prod''
   = Raised (KeyError ''env'')"
  by (rule env_prefix_without_env_raises
        [where d = "[(VStr ''common'', VDict [(VStr ''x'', VStr ''{service}'')]),
               (VStr ''configs'', VDict [(VStr ''prod'', VDict [])]),
               (VStr ''env_prefix'', VStr ''APP'')]"
          and configs = "VDict [(VStr ''prod'', VDict [])]"
          and p = "VStr ''APP''"
          and m = "[(VStr ''x'', VStr ''api''), (VStr ''SERVICE'', VStr ''api''),
                    (VStr ''CONFIG'', VStr ''prod''), (VStr ''HOME'', VStr ''/srv/app''),
                    (VStr ''PYTHON_CMD'', VStr ''/srv/venv/bin/python''),
                    (VStr ''LOGGING_DIR'', VStr ''/var/log/example'')]"])
    (simp_all add: settings_defs)

section \<open>Unknown placeholders\<close>

lemma fmt_run_append:
  "fmt_run h kw st pre = Inr out \<Longrightarrow> fmt_run h kw st (pre @ rest) = fmt_run h kw (Lit, out) rest"
proof (induction pre arbitrary: st)
  case Nil
  then show ?case by (cases st) (auto split: scan.splits)
next
  case (Cons c cs)
  then show ?case by (cases "fmt_step h kw st c") auto
qed

lemma fmt_run_name:
  "list_all (\<lambda>c. c \<notin> set ''{}[].!:'') n \<Longrightarrow>
   fmt_run h kw (FieldName False acc, out) (n @ rest)
     = fmt_run h kw (FieldName False (acc @ n), out) rest"
  by (induction n arbitrary: acc) (auto simp: name_step_def)

lemma field_first_keyword:
  "list_all (\<lambda>c. c \<notin> set ''{}[].!:'') n \<Longrightarrow> field_first n = n"
  unfolding field_first_def
  by (rule takeWhile_eq_all_conv [THEN iffD2]) (auto simp: list_all_iff)

lemma get_integer_keyword: "keyword_name n \<Longrightarrow> get_integer n = NotInteger"
  by (cases n) (simp_all add: keyword_name_def get_integer_def)

lemma get_field_unknown:
  assumes "keyword_name n" and "map_of kw n = None"
  shows "get_field h kw n conv spec = Inl (KeyError n)"
proof -
  have "field_first n = n" and "n \<noteq> []"
    using assms(1) by (auto simp: keyword_name_def field_first_keyword split: list.splits)
  then show ?thesis
    using get_integer_keyword [OF assms(1)] assms(2) by (simp add: get_field_def Let_def)
qed

lemma fmt_run_open_name:
  assumes "keyword_name n"
  shows "fmt_run h kw (LBrace, out) (n @ rest) = fmt_run h kw (FieldName False n, out) rest"
proof -
  from assms obtain c cs where n: "n = c # cs" and c: "c \<notin> set ''{}[].!:''"
    and cs: "list_all (\<lambda>c. c \<notin> set ''{}[].!:'') cs"
    by (cases n) (auto simp: keyword_name_def)
  have "fmt_run h kw (LBrace, out) (n @ rest) = fmt_run h kw (FieldName False [c], out) (cs @ rest)"
    using n c by (auto simp: name_step_def)
  also have "\<dots> = fmt_run h kw (FieldName False ([c] @ cs), out) rest"
    using cs by (rule fmt_run_name)
  finally show ?thesis using n by simp
qed

lemma str_format_unknown_keyword:
  assumes "str_format h pre kw = Inr out" and "keyword_name n" and "map_of kw n = None"
  shows "str_format h (pre @ ''{'' @ n @ ''}'' @ post) kw = Inl (KeyError n)"
proof -
  have "str_format h (pre @ ''{'' @ n @ ''}'' @ post) kw
      = fmt_run h kw (Lit, out) (CHR ''{'' # n @ CHR ''}'' # post)"
    using fmt_run_append [of h kw "(Lit, [])" pre out] assms(1) by (simp add: str_format_def)
  also have "\<dots> = fmt_run h kw (LBrace, out) (n @ CHR ''}'' # post)"
    by simp
  also have "\<dots> = fmt_run h kw (FieldName False n, out) (CHR ''}'' # post)"
    using assms(2) by (rule fmt_run_open_name)
  also have "\<dots> = Inl (KeyError n)"
    by (simp add: get_field_unknown [OF assms(2,3)] name_step_def emit_field_def)
  finally show ?thesis .
qed

text \<open>
  The reading of a field name as an index, on three names: digits beyond
  \<open>PY_SSIZE_T_MAX\<close> are an error whatever follows them; the largest index is read and
  then found out of range; a name that starts with a letter is a keyword.
\<close>

lemma str_format_too_many_digits:
  "str_format h ''{9223372036854775808x}'' kw = Inl ValueError"
  "str_format h ''{9223372036854775807}'' kw = Inl IndexError"
  "str_format h ''{x9}'' [] = Inl (KeyError ''x9'')"
  by (simp_all add: str_format_def name_step_def emit_field_def get_field_def field_first_def
      field_rest_def get_integer_def PY_SSIZE_T_MAX_def)

lemma first_failure_append:
  "first_failure h service config (xs @ ys)
     = (case first_failure h service config xs of
          Some e \<Rightarrow> Some e
        | None \<Rightarrow> first_failure h service config ys)"
  by (induction xs) (auto split: sum.splits)

lemma first_failure_member:
  "first_failure h service config xs = Some e \<Longrightarrow>
     \<exists>t \<in> set xs. str_format h t [(''service'', service), (''config'', config)] = Inl e"
  by (induction xs) (auto split: sum.splits)

lemma deep_format_first_failure:
  "(case deep_format h service config v of Inl e \<Rightarrow> Some e | Inr w \<Rightarrow> None)
     = first_failure h service config (str_leaves v)"
  "(case deep_format_items h service config kvs acc of Inl e \<Rightarrow> Some e | Inr w \<Rightarrow> None)
     = first_failure h service config (str_leaves_items kvs)"
  by (induction h service config v and h service config kvs acc
      rule: deep_format_deep_format_items.induct)
    (auto simp: first_failure_append split: sum.splits option.splits)

text \<open>
  C2 as the claim states it fails: a placeholder that names neither \<open>service\<close> nor
  \<open>config\<close> makes settings resolution raise an uncaught \<open>KeyError\<close>; no error result
  is returned.
\<close>

theorem unknown_placeholder_crashes:
  "load_settings
     (scripted_host [(''/srv/app/services/api.yaml'',
        VDict [(VStr ''common'', VDict [(VStr ''x'', VStr ''{service}-{region}'')]),
               (VStr ''configs'', VDict [(VStr ''prod'', VDict [])])])])
     ''api'' ''prod''
   = Raised (KeyError ''region'')"
  by (simp add: settings_defs)

text \<open>
  C2, amended. Suppose the descriptor passes the presence checks and its \<open>common\<close>
  section holds, among the strings that get formatted, one in which a prefix that
  formats without error is followed by a placeholder whose name is a plain keyword other
  than \<open>service\<close> and \<open>config\<close>. Then settings resolution raises an exception that no
  handler catches, namely the formatting error of the first string that fails to format;
  and when every string before the one with the placeholder formats without error, the
  exception is the \<open>KeyError\<close> of the placeholder's name. No error result is returned.
\<close>

theorem unknown_placeholder_raises:
  assumes load: "load_yaml h (descriptor_path h service) = Inr (VDict d)"
    and configs: "dict_get d (VStr ''configs'') = Some configs"
    and config: "str_in config configs = Inr True"
    and common: "dict_get d (VStr ''common'') = Some common"
    and leaf: "str_leaves common = before @ (pre @ ''{'' @ name @ ''}'' @ post) # after"
    and pre: "str_format h pre [(''service'', service), (''config'', config)] = Inr out"
    and name: "keyword_name name" "name \<noteq> ''service''" "name \<noteq> ''config''"
  shows "(\<exists>e s. s \<in> set (str_leaves common)
             \<and> str_format h s [(''service'', service), (''config'', config)] = Inl e
             \<and> first_failure h service config (str_leaves common) = Some e
             \<and> load_settings h service config = Raised e)
       \<and> (first_failure h service config before = None
             \<longrightarrow> load_settings h service config = Raised (KeyError name))"
proof -
  let ?kw = "[(''service'', service), (''config'', config)]"
  let ?s = "pre @ ''{'' @ name @ ''}'' @ post"
  have bad: "str_format h ?s ?kw = Inl (KeyError name)"
    using pre name by (intro str_format_unknown_keyword [where out = out]) simp_all
  have here: "first_failure h service config (?s # after) = Some (KeyError name)"
    using bad by simp
  have raised: "load_settings h service config = Raised e"
    if "first_failure h service config (str_leaves common) = Some e" for e
  proof -
    from that have "deep_format h service config common = Inl e"
      using deep_format_first_failure(1) [of h service config common]
      by (auto split: sum.splits)
    moreover have "d \<noteq> []" using configs by auto
    ultimately show ?thesis
      using load configs config common by (simp add: load_settings_def merged_settings_def)
  qed
  have "\<exists>e. first_failure h service config (str_leaves common) = Some e"
    unfolding leaf first_failure_append here
    by (cases "first_failure h service config before") simp_all
  then obtain e where e: "first_failure h service config (str_leaves common) = Some e" ..
  from first_failure_member [OF e] obtain s
    where "s \<in> set (str_leaves common)" "str_format h s ?kw = Inl e"
    by blast
  with e raised [OF e] have first: "\<exists>e s. s \<in> set (str_leaves common)
             \<and> str_format h s ?kw = Inl e
             \<and> first_failure h service config (str_leaves common) = Some e
             \<and> load_settings h service config = Raised e"
    by blast
  have "load_settings h service config = Raised (KeyError name)"
    if "first_failure h service config before = None"
  proof (rule raised)
    show "first_failure h service config (str_leaves common) = Some (KeyError name)"
      unfolding leaf first_failure_append here using that by simp
  qed
  with first show ?thesis by blast
qed

theorem unknown_placeholder_raises_witness:
  "first_failure
      (scripted_host [(''/srv/app/services/api.yaml'',
         VDict [(VStr ''common'',
                  VDict [(VStr ''name'', VStr ''{service}''),
                         (VStr ''x'', VStr ''{service}-{region}''),
                         (VStr ''y'', VStr ''{0}'')]),
                (VStr ''configs'', VDict [(VStr ''prod'', VDict [])])])])
      ''api'' ''prod'' [''{service}''] = None
   \<and> load_settings
      (scripted_host [(''/srv/app/services/api.yaml'',
         VDict [(VStr ''common'',
                  VDict [(VStr ''name'', VStr ''{service}''),
                         (VStr ''x'', VStr ''{service}-{region}''),
                         (VStr ''y'', VStr ''{0}'')]),
                (VStr ''configs'', VDict [(VStr ''prod'', VDict [])])])])
      ''api'' ''prod'' = Raised (KeyError ''region'')"
  using unknown_placeholder_raises
        [where h = "scripted_host [(''/srv/app/services/api.yaml'',
                      VDict [(VStr ''common'',
                               VDict [(VStr ''name'', VStr ''{service}''),
                                      (VStr ''x'', VStr ''{service}-{region}''),
                                      (VStr ''y'', VStr ''{0}'')]),
                             (VStr ''configs'', VDict [(VStr ''prod'', VDict [])])])]"
           and service = "''api''" and config = "''prod''"
           and before = "[''{service}'']" and after = "[''{0}'']"
           and pre = "''{service}-''" and name = "''region''" and post = "''''"
           and out = "''api-''" and configs = "VDict [(VStr ''prod'', VDict [])]"
           and common = "VDict [(VStr ''name'', VStr ''{service}''),
                                (VStr ''x'', VStr ''{service}-{region}''),
                                (VStr ''y'', VStr ''{0}'')]"
           and d = "[(VStr ''common'',
                       VDict [(VStr ''name'', VStr ''{service}''),
                              (VStr ''x'', VStr ''{service}-{region}''),
                              (VStr ''y'', VStr ''{0}'')]),
                     (VStr ''configs'', VDict [(VStr ''prod'', VDict [])])]"]
  by (simp add: settings_defs keyword_name_def)

section \<open>Exit status of \<open>run\<close> and \<open>do\<close>\<close>

lemmas run_defs =
  run_def do_def guess_and_fix_command_def job_env_def subprocess_run_def print_error_def emit_def
  os_path_exists_def str_split_def is_space_def os_path_dirname_def scripted_spawn_def Let_def
  str_int_def str_nat.simps

lemma guess_and_fix_command_trace:
  assumes "guess_and_fix_command h c s = (r, s1)"
  shows "trace s1 = trace s \<or> (\<exists>p b. trace s1 = trace s @ [Exists p b])"
  using assms
  by (auto simp: guess_and_fix_command_def os_path_exists_def emit_def Let_def
      simp del: os_path_join.simps
      split: pyval.splits list.splits if_splits bool.splits)

lemma job_exit:
  assumes g: "trace s1 = trace s \<or> (\<exists>p b. trace s1 = trace s @ [Exists p b])"
    and r: "(case subprocess_run h argv0 (Some env0) s1 of
        (SpawnError e, s2) \<Rightarrow> (Traceback e, s2)
      | (Exited returncode, s2) \<Rightarrow>
          if returncode \<noteq> 0
          then (Exit 1, print_error [VStr msg, VInt returncode] s2)
          else (Exit 0, s2)) = (ex, s')"
    and t: "trace s' = trace s @ evs"
    and m: "Spawn argv env (Exited n) \<in> set evs" and n: "n \<noteq> 0"
  shows "ex = Exit 1 \<and> last evs = Print Stderr [VStr ''ERROR:'', VStr msg, VInt n]"
  using assms
  by (auto simp: subprocess_run_def emit_def print_error_def
      split: prod.splits proc_result.splits if_splits)

text \<open>
  C1 as the claim states it fails: a child that exits with status 2 makes \<open>run\<close> exit
  with status 1.
\<close>

theorem child_status_not_propagated:
  "exit_code (fst (run
      (scripted_host [(''/srv/app/services/api.yaml'',
         VDict [(VStr ''configs'',
           VDict [(VStr ''prod'',
             VDict [(VStr ''run'', VStr ''server.py''),
                    (VStr ''env'', VDict [(VStr ''PORT'', VInt 80)])])])])])
      ''api'' ''prod'' \<lparr>files = Dir [], outside = [2], trace = []\<rparr>)) = 1
   \<and> trace (snd (run
      (scripted_host [(''/srv/app/services/api.yaml'',
         VDict [(VStr ''configs'',
           VDict [(VStr ''prod'',
             VDict [(VStr ''run'', VStr ''server.py''),
                    (VStr ''env'', VDict [(VStr ''PORT'', VInt 80)])])])])])
      ''api'' ''prod'' \<lparr>files = Dir [], outside = [2], trace = []\<rparr>))
     = [Spawn [''/srv/venv/bin/python'', ''server.py'']
          (Some [(VStr ''PATH'', VStr ''/usr/bin''), (VStr ''PORT'', VStr ''80'')]) (Exited 2),
        Print Stderr [VStr ''ERROR:'', VStr ''Service stopped with return code:'', VInt 2]]"
  by (simp add: settings_defs run_defs)

text \<open>
  C1, amended. Whenever the child command of \<open>run\<close> or \<open>do\<close> runs and exits with a
  non-zero status \<open>n\<close>, the tool exits with status 1; the status \<open>n\<close> is reported in
  the last thing the tool does, the error line on standard error.
\<close>

theorem child_failure_exit_status:
  "(run h service config s = (ex, s') \<and> trace s' = trace s @ evs
      \<and> Spawn argv env (Exited n) \<in> set evs \<and> n \<noteq> 0
    \<longrightarrow> exit_code ex = 1
        \<and> last evs = Print Stderr [VStr ''ERROR:'', VStr ''Service stopped with return code:'', VInt n])
   \<and> (do h service config action args s = (ex, s') \<and> trace s' = trace s @ evs
      \<and> Spawn argv env (Exited n) \<in> set evs \<and> n \<noteq> 0
    \<longrightarrow> exit_code ex = 1
        \<and> last evs = Print Stderr [VStr ''ERROR:'', VStr ''Command stopped with return code:'', VInt n])"
proof (intro conjI impI)
  assume a: "run h service config s = (ex, s') \<and> trace s' = trace s @ evs
      \<and> Spawn argv env (Exited n) \<in> set evs \<and> n \<noteq> 0"
  have "ex = Exit 1 \<and> last evs = Print Stderr [VStr ''ERROR:'', VStr ''Service stopped with return code:'', VInt n]"
  proof (cases "load_settings h service config")
    case (Ok settings)
    let ?c = "case dict_get settings (VStr ''run'') of None \<Rightarrow> VNone | Some v \<Rightarrow> v"
    show ?thesis
    proof (cases "truthy ?c")
      case False
      then show ?thesis using a Ok by (auto simp: run_def print_error_def emit_def)
    next
      case True
      obtain g s1 where g: "guess_and_fix_command h ?c s = (g, s1)"
        by (cases "guess_and_fix_command h ?c s")
      note gt = guess_and_fix_command_trace [OF g]
      show ?thesis
      proof (cases g)
        case (Inl e)
        then show ?thesis using a Ok True g gt by (auto simp: run_def)
      next
        case (Inr cmd)
        show ?thesis
        proof (cases "job_env h settings")
          case (Inl e)
          then show ?thesis using a Ok True g gt Inr by (auto simp: run_def)
        next
          case (Inr env0)
          have "(case subprocess_run h (str_split cmd) (Some env0) s1 of
              (SpawnError e, s2) \<Rightarrow> (Traceback e, s2)
            | (Exited returncode, s2) \<Rightarrow>
                if returncode \<noteq> 0
                then (Exit 1, print_error [VStr ''Service stopped with return code:'', VInt returncode] s2)
                else (Exit 0, s2)) = (ex, s')"
            using a Ok True g \<open>g = Inr cmd\<close> Inr by (simp add: run_def)
          from job_exit [OF gt this] a show ?thesis by blast
        qed
      qed
    qed
  next
    case (Error msg)
    then show ?thesis using a by (auto simp: run_def print_error_def emit_def)
  next
    case (Raised e)
    then show ?thesis using a by (auto simp: run_def)
  qed
  then show "exit_code ex = 1" and "last evs = Print Stderr [VStr ''ERROR:'', VStr ''Service stopped with return code:'', VInt n]"
    by simp_all
next
  assume a: "do h service config action args s = (ex, s') \<and> trace s' = trace s @ evs
      \<and> Spawn argv env (Exited n) \<in> set evs \<and> n \<noteq> 0"
  have "ex = Exit 1 \<and> last evs = Print Stderr [VStr ''ERROR:'', VStr ''Command stopped with return code:'', VInt n]"
  proof (cases "load_settings h service config")
    case (Ok settings)
    show ?thesis
    proof (cases "dict_get settings (VStr ''actions'')")
      case None
      then show ?thesis using a Ok by (auto simp: do_def print_error_def emit_def)
    next
      case (Some actions)
      show ?thesis
      proof (cases "py_get actions action VNone")
        case (Inl e)
        then show ?thesis using a Ok Some by (auto simp: do_def)
      next
        case (Inr base)
        show ?thesis
        proof (cases "truthy base")
          case False
          then show ?thesis using a Ok Some Inr by (auto simp: do_def print_error_def emit_def)
        next
          case True
          let ?c = "VStr (py_str h base @ '' '' @ str_join '' '' args)"
          obtain g s1 where g: "guess_and_fix_command h ?c s = (g, s1)"
            by (cases "guess_and_fix_command h ?c s")
          note gt = guess_and_fix_command_trace [OF g]
          show ?thesis
          proof (cases g)
            case (Inl e)
            then show ?thesis using a Ok Some \<open>py_get actions action VNone = Inr base\<close> True g gt
              by (auto simp: do_def)
          next
            case g_ok: (Inr cmd)
            show ?thesis
            proof (cases "job_env h settings")
              case (Inl e)
              then show ?thesis
                using a Ok Some \<open>py_get actions action VNone = Inr base\<close> True g gt g_ok
                by (auto simp: do_def)
            next
              case env_ok: (Inr env0)
              have "(case subprocess_run h (str_split cmd) (Some env0) s1 of
                  (SpawnError e, s2) \<Rightarrow> (Traceback e, s2)
                | (Exited returncode, s2) \<Rightarrow>
                    if returncode \<noteq> 0
                    then (Exit 1, print_error [VStr ''Command stopped with return code:'', VInt returncode] s2)
                    else (Exit 0, s2)) = (ex, s')"
                using a Ok Some \<open>py_get actions action VNone = Inr base\<close> True g g_ok env_ok
                by (simp add: do_def)
              from job_exit [OF gt this] a show ?thesis by blast
            qed
          qed
        qed
      qed
    qed
  next
    case (Error msg)
    then show ?thesis using a by (auto simp: do_def print_error_def emit_def)
  next
    case (Raised e)
    then show ?thesis using a by (auto simp: do_def)
  qed
  then show "exit_code ex = 1" and "last evs = Print Stderr [VStr ''ERROR:'', VStr ''Command stopped with return code:'', VInt n]"
    by simp_all
qed

theorem child_failure_exit_status_witness:
  "exit_code (fst (do
      (scripted_host [(''/srv/app/services/api.yaml'',
         VDict [(VStr ''configs'',
           VDict [(VStr ''prod'',
             VDict [(VStr ''actions'', VDict [(VStr ''migrate'', VStr ''manage.py migrate'')]),
                    (VStr ''env'', VDict [])])])])])
      ''api'' ''prod'' ''migrate'' [''--fake'']
      \<lparr>files = Dir [], outside = [3], trace = []\<rparr>)) = 1
   \<and> exit_code (fst (run
      (scripted_host [(''/srv/app/services/api.yaml'',
         VDict [(VStr ''configs'',
           VDict [(VStr ''prod'',
             VDict [(VStr ''run'', VStr ''server.py''),
                    (VStr ''env'', VDict [(VStr ''PORT'', VInt 80)])])])])])
      ''api'' ''prod'' \<lparr>files = Dir [], outside = [2], trace = []\<rparr>)) = 1"
proof -
  let ?hd = "scripted_host [(''/srv/app/services/api.yaml'',
         VDict [(VStr ''configs'',
           VDict [(VStr ''prod'',
             VDict [(VStr ''actions'', VDict [(VStr ''migrate'', VStr ''manage.py migrate'')]),
                    (VStr ''env'', VDict [])])])])]"
  let ?hr = "scripted_host [(''/srv/app/services/api.yaml'',
         VDict [(VStr ''configs'',
           VDict [(VStr ''prod'',
             VDict [(VStr ''run'', VStr ''server.py''),
                    (VStr ''env'', VDict [(VStr ''PORT'', VInt 80)])])])])]"
  let ?sd = "\<lparr>files = Dir [], outside = [3::int], trace = []\<rparr>"
  let ?sr = "\<lparr>files = Dir [], outside = [2::int], trace = []\<rparr>"
  let ?argv_d = "[''/srv/venv/bin/python'', ''manage.py'', ''migrate'', ''--fake'']"
  let ?env_d = "Some [(VStr ''PATH'', VStr ''/usr/bin'')]"
  let ?argv_r = "[''/srv/venv/bin/python'', ''server.py'']"
  let ?env_r = "Some [(VStr ''PATH'', VStr ''/usr/bin''), (VStr ''PORT'', VStr ''80'')]"
  have d: "trace (snd (do ?hd ''api'' ''prod'' ''migrate'' [''--fake''] ?sd))
      = trace ?sd @ [Spawn ?argv_d ?env_d (Exited 3),
          Print Stderr [VStr ''ERROR:'', VStr ''Command stopped with return code:'', VInt 3]]"
    by (simp add: settings_defs run_defs)
  have r: "trace (snd (run ?hr ''api'' ''prod'' ?sr))
      = trace ?sr @ [Spawn ?argv_r ?env_r (Exited 2),
          Print Stderr [VStr ''ERROR:'', VStr ''Service stopped with return code:'', VInt 2]]"
    by (simp add: settings_defs run_defs)
  from d have "exit_code (fst (do ?hd ''api'' ''prod'' ''migrate'' [''--fake''] ?sd)) = 1"
    using child_failure_exit_status [THEN conjunct2, rule_format,
        of ?hd "''api''" "''prod''" "''migrate''" "[''--fake'']" ?sd
          "fst (do ?hd ''api'' ''prod'' ''migrate'' [''--fake''] ?sd)"
          "snd (do ?hd ''api'' ''prod'' ''migrate'' [''--fake''] ?sd)" _ ?argv_d ?env_d 3]
    by simp
  moreover from r have "exit_code (fst (run ?hr ''api'' ''prod'' ?sr)) = 1"
    using child_failure_exit_status [THEN conjunct1, rule_format,
        of ?hr "''api''" "''prod''" ?sr
          "fst (run ?hr ''api'' ''prod'' ?sr)" "snd (run ?hr ''api'' ''prod'' ?sr)" _ ?argv_r ?env_r 2]
    by simp
  ultimately show ?thesis by simp
qed

end
